theory Spec2Isabelle
  imports Main
begin

section \<open>Python string and path primitives used by the classifier script\<close>

text \<open>
  The script \<^verbatim>\<open>metagenomic_classifier.py\<close> manipulates file names with a handful of
  built-in string operations. Strings are lists of 8-bit characters, read as the code
  points 0 to 255; the operations below follow the behaviour of the Python built-ins on
  the (non-empty) separators the script uses.
\<close>

fun starts_with :: "string \<Rightarrow> string \<Rightarrow> bool" where
  "starts_with [] s = True"
| "starts_with (p # ps) [] = False"
| "starts_with (p # ps) (c # cs) = (p = c \<and> starts_with ps cs)"

text \<open>\<^verbatim>\<open>sub in s\<close>\<close>

fun contains :: "string \<Rightarrow> string \<Rightarrow> bool" where
  "contains sub [] = (sub = [])"
| "contains sub (c # cs) = (starts_with sub (c # cs) \<or> contains sub cs)"

text \<open>\<^verbatim>\<open>s.split(sep)[0]\<close>: the text before the first occurrence of \<open>sep\<close>, all of
  \<open>s\<close> when there is none.\<close>

fun split_head :: "string \<Rightarrow> string \<Rightarrow> string" where
  "split_head sep [] = []"
| "split_head sep (c # cs) =
     (if starts_with sep (c # cs) then [] else c # split_head sep cs)"

text \<open>\<^verbatim>\<open>s.replace(old, new)\<close>: every occurrence, scanning left to right without
  overlap. The script only calls it with a non-empty \<open>old\<close>.\<close>

function replace :: "string \<Rightarrow> string \<Rightarrow> string \<Rightarrow> string" where
  "replace old new [] = []"
| "replace old new (c # cs) =
     (if old \<noteq> [] \<and> starts_with old (c # cs)
      then new @ replace old new (drop (length old) (c # cs))
      else c # replace old new cs)"
  by pat_completeness auto
termination
  by (relation "measure (\<lambda>(old, new, s). length s)") (auto simp: neq_Nil_conv)

text \<open>\<^verbatim>\<open>s.endswith(suffix)\<close>\<close>

definition ends_with :: "string \<Rightarrow> string \<Rightarrow> bool" where
  "ends_with suffix s = starts_with (rev suffix) (rev s)"

text \<open>\<^verbatim>\<open>os.path.basename\<close> on a POSIX path: the text after the last slash.\<close>

definition basename :: "string \<Rightarrow> string" where
  "basename p = rev (takeWhile (\<lambda>c. c \<noteq> CHR ''/'') (rev p))"

text \<open>\<^verbatim>\<open>os.path.splitext(p)[0]\<close> for a name without a slash: the name is cut at its last
  dot, unless only dots precede that dot.\<close>

definition splitext_root :: "string \<Rightarrow> string" where
  "splitext_root p =
     (let ext = takeWhile (\<lambda>c. c \<noteq> CHR ''.'') (rev p);
          root = take (length p - length ext - 1) p
      in if length ext < length p \<and> (\<exists>c \<in> set root. c \<noteq> CHR ''.'') then root else p)"

text \<open>\<^verbatim>\<open>os.path.join(a, b)\<close> for two components.\<close>

definition path_join :: "string \<Rightarrow> string \<Rightarrow> string" where
  "path_join a b =
     (if starts_with ''/'' b then b
      else if a = [] \<or> ends_with ''/'' a then a @ b
      else a @ ''/'' @ b)"

text \<open>\<^verbatim>\<open>sep.join(parts)\<close>\<close>

fun join :: "string \<Rightarrow> string list \<Rightarrow> string" where
  "join sep [] = []"
| "join sep [p] = p"
| "join sep (p # q # ps) = p @ sep @ join sep (q # ps)"

text \<open>\<^verbatim>\<open>str(n)\<close> for an integer, as the f-strings of the script render it.\<close>

definition digit_char :: "nat \<Rightarrow> char" where
  "digit_char d = ''0123456789'' ! (d mod 10)"

function str_nat :: "nat \<Rightarrow> string" where
  "str_nat n = (if n < 10 then [digit_char n] else str_nat (n div 10) @ [digit_char n])"
  by pat_completeness auto
termination
  by (relation "measure id") auto

definition str_int :: "int \<Rightarrow> string" where
  "str_int i = (if i < 0 then CHR ''-'' # str_nat (nat (- i)) else str_nat (nat i))"

text \<open>\<^verbatim>\<open>s.strip()\<close> removes the characters for which \<^verbatim>\<open>str.isspace\<close> holds. Among the code
  points 0 to 255 these are the blank, 0x09 to 0x0D, 0x1C to 0x1F, the next-line
  character 0x85 and the no-break space 0xA0.\<close>

definition is_space :: "char \<Rightarrow> bool" where
  "is_space c = (c \<in> set [CHR '' '', CHR 0x09, CHR 0x0A, CHR 0x0B, CHR 0x0C, CHR 0x0D,
                           CHR 0x1C, CHR 0x1D, CHR 0x1E, CHR 0x1F, CHR 0x85, CHR 0xA0])"

definition strip :: "string \<Rightarrow> string" where
  "strip s = rev (dropWhile is_space (rev (dropWhile is_space s)))"

section \<open>Dictionaries in insertion order\<close>

text \<open>
  A Python \<^verbatim>\<open>dict\<close> keeps its keys in insertion order, and assigning to a key that is
  present replaces the value in place. \<open>dict_set d k v\<close> is \<^verbatim>\<open>d[k] = v\<close>.
\<close>

fun dict_set :: "('k \<times> 'v) list \<Rightarrow> 'k \<Rightarrow> 'v \<Rightarrow> ('k \<times> 'v) list" where
  "dict_set [] k v = [(k, v)]"
| "dict_set ((k', v') # d) k v =
     (if k' = k then (k, v) # d else (k', v') # dict_set d k v)"

section \<open>Errors\<close>

text \<open>The exceptions the script raises itself or receives from the libraries it calls.\<close>

datatype exn =
    FileNotFoundError string
  | NotADirectoryError string
  | CalledProcessError int string
  | RuntimeError string
  | KeyError string
  | AttributeError string
  | PandasError string

section \<open>Sample discovery\<close>

text \<open>
  \<open>discover_samples\<close> receives what \<^verbatim>\<open>glob.glob(input_dir/**/*.fastq*, recursive=True)\<close>
  returned (\<open>fastq_files\<close>) and the test \<^verbatim>\<open>os.path.exists\<close> (\<open>exists\<close>).
  The result is the dictionary \<open>samples\<close>, from sample identifier to file list.
\<close>

definition r1_sample_id :: "string \<Rightarrow> string" where
  "r1_sample_id r1 = split_head ''_R1'' (basename r1)"

definition r2_of :: "string \<Rightarrow> string" where
  "r2_of r1 = replace ''_R1'' ''_R2'' r1"

definition unpaired_sample_id :: "string \<Rightarrow> string" where
  "unpaired_sample_id f = splitext_root (splitext_root (basename f))"

definition register_r1 ::
  "(string \<Rightarrow> bool) \<Rightarrow> (string \<times> string list) list \<Rightarrow> string \<Rightarrow> (string \<times> string list) list" where
  "register_r1 exists samples r1 =
     (let sample_id = r1_sample_id r1; r2 = r2_of r1
      in if exists r2 then dict_set samples sample_id [r1, r2]
         else dict_set samples sample_id [r1])"

definition register_unpaired ::
  "(string \<times> string list) list \<Rightarrow> string \<Rightarrow> (string \<times> string list) list" where
  "register_unpaired samples f = dict_set samples (unpaired_sample_id f) [f]"

text \<open>The local variables \<^verbatim>\<open>r1_files\<close>, \<^verbatim>\<open>samples\<close> (after the first loop) and
  \<^verbatim>\<open>unpaired\<close> of \<^verbatim>\<open>discover_samples\<close>.\<close>

definition r1_files :: "string list \<Rightarrow> string list" where
  "r1_files fastq_files = filter (\<lambda>f. contains ''_R1'' (basename f)) fastq_files"

definition paired_samples :: "string list \<Rightarrow> (string \<Rightarrow> bool) \<Rightarrow> (string \<times> string list) list" where
  "paired_samples fastq_files exists = foldl (register_r1 exists) [] (r1_files fastq_files)"

definition unpaired_files :: "string list \<Rightarrow> (string \<Rightarrow> bool) \<Rightarrow> string list" where
  "unpaired_files fastq_files exists =
     (let used_files = concat (map snd (paired_samples fastq_files exists))
      in filter (\<lambda>f. f \<notin> set used_files) fastq_files)"

definition discover_samples ::
  "string \<Rightarrow> string list \<Rightarrow> (string \<Rightarrow> bool) \<Rightarrow> exn + (string \<times> string list) list" where
  "discover_samples input_dir fastq_files exists =
     (if fastq_files = [] then Inl (FileNotFoundError (''No FASTQ files found in '' @ input_dir))
      else Inr (foldl register_unpaired (paired_samples fastq_files exists)
                  (unpaired_files fastq_files exists)))"

section \<open>The world outside the script\<close>

text \<open>
  A cell of a pandas data frame: a number, a text, or the missing value.
\<close>

datatype cell = Num int | Txt string | NaN

record frame =
  columns :: "string list"
  rows :: "cell list list"

text \<open>
  What \<^verbatim>\<open>subprocess.run\<close> is given: the command, either one string or a sequence of
  arguments, and the \<^verbatim>\<open>shell\<close> flag.
\<close>

datatype cmdline = CmdString string | CmdArgs "string list"

record popen =
  popen_args :: cmdline
  popen_shell :: bool

type_synonym fs = "string \<Rightarrow> string option"

text \<open>
  The collaborators are parameters of the model: \<open>subprocess_run\<close> runs a command on the
  files and gives back return code, standard output, standard error and the files as the
  tool left them; \<open>pd_read_csv\<close> is \<^verbatim>\<open>pandas.read_csv(..., sep="\t")\<close> on a file's content,
  with the \<^verbatim>\<open>names\<close> argument when one is passed (then \<^verbatim>\<open>header=None\<close>);
  \<open>glob_glob\<close> is the recursive \<^verbatim>\<open>glob.glob\<close>; \<open>isdir\<close> is \<^verbatim>\<open>os.path.isdir\<close>.
\<close>

record env =
  subprocess_run :: "popen \<Rightarrow> fs \<Rightarrow> (int \<times> string \<times> string) \<times> fs"
  pd_read_csv :: "string \<Rightarrow> string list option \<Rightarrow> exn + frame"
  glob_glob :: "string \<Rightarrow> string list"
  isdir :: "string \<Rightarrow> bool"

text \<open>
  The state the script changes: the files (path to content; a path exists when it has
  content here), the commands launched so far, the lines of the output table
  \<^verbatim>\<open>microbes_abundances.csv\<close> (each a list of fields), the variables \<open>first\<close> and
  \<open>success\<close> of \<open>main\<close>, and the samples reported by \<^verbatim>\<open>logger.error("Failed to process ...")\<close>.
  The output table is kept apart from \<open>files\<close>: the tools are taken not to touch it, and
  appending to it is taken to succeed. A launched tool is taken to return: the script
  waits for it without a time limit.
\<close>

record state =
  files :: fs
  launched :: "popen list"
  csv_out :: "cell list list"
  first :: bool
  success :: nat
  failed_log :: "(string \<times> exn) list"

record cli_args =
  input_dir :: string
  output_dir :: string
  kraken_db :: string
  threads :: int
  use_bracken :: bool
  debug :: bool
  read_length :: int

section \<open>Running external tools\<close>

definition run_cmd ::
  "env \<Rightarrow> string \<Rightarrow> bool \<Rightarrow> state \<Rightarrow> (exn + (int \<times> string \<times> string)) \<times> state" where
  "run_cmd e cmd check st =
     (let call = \<lparr>popen_args = CmdString cmd, popen_shell = True\<rparr>;
          (result, fs') = subprocess_run e call (files st);
          st' = st\<lparr>files := fs', launched := launched st @ [call]\<rparr>
      in if check \<and> fst result \<noteq> 0
         then (Inl (CalledProcessError (fst result) cmd), st')
         else (Inr result, st'))"

text \<open>\<^verbatim>\<open>f"'{s}'"\<close>\<close>

definition squote :: "string \<Rightarrow> string" where
  "squote s = CHR 0x27 # s @ [CHR 0x27]"

definition kraken2_report :: "string \<Rightarrow> string" where
  "kraken2_report sample_id = ''/tmp/'' @ sample_id @ ''.kraken2.report''"

definition kraken2_output :: "string \<Rightarrow> string" where
  "kraken2_output sample_id = ''/tmp/'' @ sample_id @ ''.kraken2.out''"

definition kraken2_cmd :: "string \<Rightarrow> string list \<Rightarrow> string \<Rightarrow> int \<Rightarrow> string list" where
  "kraken2_cmd sample_id fastq_files db_path n_threads =
     (let is_paired = (length fastq_files = 2);
          is_gz = (\<exists>f \<in> set fastq_files. ends_with ''.gz'' f)
      in [''kraken2'',
          ''--db '' @ squote db_path,
          ''--threads '' @ str_int n_threads,
          ''--use-names'',
          ''--report-zero-counts'',
          ''--memory-mapping'',
          ''--report '' @ squote (kraken2_report sample_id),
          ''--output '' @ squote (kraken2_output sample_id)]
         @ (if is_paired then [''--paired''] else [])
         @ (if is_gz then [''--gzip-compressed''] else [])
         @ map squote fastq_files)"

definition run_kraken2 ::
  "env \<Rightarrow> string \<Rightarrow> string list \<Rightarrow> string \<Rightarrow> int \<Rightarrow> state \<Rightarrow> (exn + string) \<times> state" where
  "run_kraken2 e sample_id fastq_files db_path n_threads st =
     (let report = kraken2_report sample_id;
          output = kraken2_output sample_id
      in case run_cmd e (join '' '' (kraken2_cmd sample_id fastq_files db_path n_threads)) True st of
           (Inl err, st1) \<Rightarrow> (Inl err, st1)
         | (Inr _, st1) \<Rightarrow>
             (case files st1 report of
                None \<Rightarrow> (Inl (RuntimeError (''Kraken2 produced empty report for '' @ sample_id)), st1)
              | Some content \<Rightarrow>
                  if length content = 0
                  then (Inl (RuntimeError (''Kraken2 produced empty report for '' @ sample_id)), st1)
                  else (Inr report,
                        if files st1 output \<noteq> None
                        then st1\<lparr>files := (files st1)(output := None)\<rparr> else st1)))"

definition bracken_cmd :: "string \<Rightarrow> string \<Rightarrow> string \<Rightarrow> int \<Rightarrow> string \<Rightarrow> string" where
  "bracken_cmd db_path kraken_report bracken_out read_len level =
     ''bracken -d '' @ squote db_path @ '' ''
     @ ''-i '' @ squote kraken_report @ '' ''
     @ ''-o '' @ squote bracken_out @ '' ''
     @ ''-r '' @ str_int read_len @ '' ''
     @ ''-l '' @ level"

definition run_bracken ::
  "env \<Rightarrow> string \<Rightarrow> string \<Rightarrow> int \<Rightarrow> string \<Rightarrow> state \<Rightarrow> (exn + string) \<times> state" where
  "run_bracken e kraken_report db_path read_len level st =
     (let bracken_out = replace ''.kraken2.report'' ''.bracken'' kraken_report
      in case run_cmd e (bracken_cmd db_path kraken_report bracken_out read_len level) True st of
           (Inl err, st1) \<Rightarrow> (Inl err, st1)
         | (Inr _, st1) \<Rightarrow>
             if files st1 bracken_out = None
             then (Inl (RuntimeError ''Bracken failed to produce output''), st1)
             else (Inr bracken_out, st1))"

section \<open>Parsing a report\<close>

text \<open>
  A row shorter than the column list reads as missing values, as pandas pads it.
\<close>

definition cell_at :: "cell list \<Rightarrow> nat \<Rightarrow> cell" where
  "cell_at row i = (if i < length row then row ! i else NaN)"

fun col_index :: "string \<Rightarrow> string list \<Rightarrow> nat option" where
  "col_index label [] = None"
| "col_index label (c # cs) =
     (if c = label then Some 0 else map_option Suc (col_index label cs))"

definition column :: "frame \<Rightarrow> string \<Rightarrow> cell list \<Rightarrow> cell" where
  "column df label row =
     (case col_index label (columns df) of None \<Rightarrow> NaN | Some i \<Rightarrow> cell_at row i)"

definition kraken2_names :: "string list" where
  "kraken2_names = [''perc'', ''reads_rooted'', ''reads_direct'', ''rank'', ''taxid'', ''name'']"

fun is_text :: "cell \<Rightarrow> bool" where
  "is_text (Txt s) = True"
| "is_text c = False"

text \<open>
  \<^verbatim>\<open>df["name"].str.strip()\<close>: the accessor exists only on a column that holds text
  (an empty column does); an element that is not text becomes the missing value.
\<close>

fun strip_cell :: "cell \<Rightarrow> cell" where
  "strip_cell (Txt s) = Txt (strip s)"
| "strip_cell c = NaN"

definition str_strip :: "cell list \<Rightarrow> (cell \<times> cell) list \<Rightarrow> exn + (cell \<times> cell) list" where
  "str_strip name_column df =
     (if name_column \<noteq> [] \<and> \<not> (\<exists>c \<in> set name_column. is_text c)
      then Inl (AttributeError ''Can only use .str accessor with string values'')
      else Inr (map (\<lambda>(name, reads). (strip_cell name, reads)) df))"

text \<open>
  The result is the two-column frame \<^verbatim>\<open>name\<close>, \<^verbatim>\<open>reads\<close>, as the list of its rows.
\<close>

definition parse_species_abundance ::
  "env \<Rightarrow> string \<Rightarrow> bool \<Rightarrow> state \<Rightarrow> exn + (cell \<times> cell) list" where
  "parse_species_abundance e report_path with_bracken st =
     (case files st report_path of
        None \<Rightarrow> Inl (FileNotFoundError report_path)
      | Some content \<Rightarrow>
          if with_bracken then
            (case pd_read_csv e content None of
               Inl err \<Rightarrow> Inl err
             | Inr df \<Rightarrow>
                 if col_index ''name'' (columns df) = None then Inl (KeyError ''name'')
                 else if col_index ''new_est_reads'' (columns df) = None
                 then Inl (KeyError ''new_est_reads'')
                 else str_strip (map (column df ''name'') (rows df))
                        (map (\<lambda>r. (column df ''name'' r, column df ''new_est_reads'' r)) (rows df)))
          else
            (case pd_read_csv e content (Some kraken2_names) of
               Inl err \<Rightarrow> Inl err
             | Inr df0 \<Rightarrow>
                 let df = df0\<lparr>columns := kraken2_names\<rparr>
                 in str_strip (map (column df ''name'') (rows df))
                      (map (\<lambda>r. (column df ''name'' r, column df ''reads_rooted'' r))
                         (filter (\<lambda>r. column df ''rank'' r = Txt ''S'') (rows df)))))"

section \<open>The main loop\<close>

text \<open>
  \<^verbatim>\<open>df.set_index("name")["reads"].to_frame().T\<close> is a frame of one row whose column
  labels are the names and whose values are the reads; \<^verbatim>\<open>df_t["SampleID"] = sample_id\<close>
  sets the column of that label where there is one and adds it at the end otherwise.
  A one-row frame is the list of its (label, value) pairs.
\<close>

definition set_column :: "cell \<Rightarrow> cell \<Rightarrow> (cell \<times> cell) list \<Rightarrow> (cell \<times> cell) list" where
  "set_column label v row =
     (if label \<in> set (map fst row)
      then map (\<lambda>(l, x). if l = label then (l, v) else (l, x)) row
      else row @ [(label, v)])"

definition sample_row :: "(cell \<times> cell) list \<Rightarrow> string \<Rightarrow> (cell \<times> cell) list" where
  "sample_row df sample_id = set_column (Txt ''SampleID'') (Txt sample_id) df"

text \<open>\<^verbatim>\<open>df_t.to_csv(output_csv, mode="a", index=False, header=first)\<close>\<close>

definition to_csv_append :: "(cell \<times> cell) list \<Rightarrow> bool \<Rightarrow> cell list list \<Rightarrow> cell list list" where
  "to_csv_append df_t header out =
     out @ (if header then [map fst df_t] else []) @ [map snd df_t]"

text \<open>\<^verbatim>\<open>os.remove(path)\<close>\<close>

definition os_remove :: "string \<Rightarrow> state \<Rightarrow> exn + state" where
  "os_remove path st =
     (if files st path = None then Inl (FileNotFoundError path)
      else Inr (st\<lparr>files := (files st)(path := None)\<rparr>))"

definition log_failure :: "string \<Rightarrow> exn \<Rightarrow> state \<Rightarrow> state" where
  "log_failure sample_id err st = st\<lparr>failed_log := failed_log st @ [(sample_id, err)]\<rparr>"

text \<open>
  One turn of the loop of \<open>main\<close>: the body of the \<^verbatim>\<open>try\<close>, and the \<^verbatim>\<open>except\<close> clause that
  logs whatever the body raised. What the body changed before it raised stays changed.
\<close>

definition process_sample :: "env \<Rightarrow> cli_args \<Rightarrow> state \<Rightarrow> string \<times> string list \<Rightarrow> state" where
  "process_sample e a st sample =
     (let sample_id = fst sample; fastqs = snd sample
      in case run_kraken2 e sample_id fastqs (kraken_db a) (threads a) st of
           (Inl err, st1) \<Rightarrow> log_failure sample_id err st1
         | (Inr kraken_report, st1) \<Rightarrow>
             (case (if use_bracken a
                    then run_bracken e kraken_report (kraken_db a) (read_length a) ''S'' st1
                    else (Inr kraken_report, st1)) of
                (Inl err, st2) \<Rightarrow> log_failure sample_id err st2
              | (Inr report_to_use, st2) \<Rightarrow>
                  (case parse_species_abundance e report_to_use (use_bracken a) st2 of
                     Inl err \<Rightarrow> log_failure sample_id err st2
                   | Inr df \<Rightarrow>
                       let df_t = sample_row df sample_id;
                           st3 = st2\<lparr>csv_out := to_csv_append df_t (first st2) (csv_out st2),
                                     first := False,
                                     success := success st2 + 1\<rparr>
                       in (case os_remove kraken_report st3 of
                             Inl err \<Rightarrow> log_failure sample_id err st3
                           | Inr st4 \<Rightarrow>
                               if use_bracken a
                               then (case os_remove report_to_use st4 of
                                       Inl err \<Rightarrow> log_failure sample_id err st4
                                     | Inr st5 \<Rightarrow> st5)
                               else st4))))"

definition main_loop :: "env \<Rightarrow> cli_args \<Rightarrow> state \<Rightarrow> (string \<times> string list) list \<Rightarrow> state" where
  "main_loop e a st samples = foldl (process_sample e a) st samples"

text \<open>
  \<open>main\<close> after argument parsing: the three checks of its inputs, discovery, the loop.
  An error of the checks or of discovery leaves \<open>main\<close>; otherwise the result is the final
  state with the two numbers of the closing log line, \<open>success\<close> and \<^verbatim>\<open>len(samples)\<close>.
\<close>

definition main :: "env \<Rightarrow> cli_args \<Rightarrow> state \<Rightarrow> exn + (state \<times> nat \<times> nat)" where
  "main e a st =
     (if \<not> isdir e (input_dir a)
      then Inl (NotADirectoryError (''Input directory not found: '' @ input_dir a))
      else if \<not> isdir e (kraken_db a)
      then Inl (NotADirectoryError (''Kraken2 DB directory not found: '' @ kraken_db a))
      else if files st (path_join (kraken_db a) ''hash.k2d'') = None
      then Inl (FileNotFoundError ''Kraken2 DB appears invalid (missing hash.k2d)'')
      else
        case discover_samples (input_dir a)
               (glob_glob e (path_join (path_join (input_dir a) ''**'') ''*.fastq*''))
               (\<lambda>p. files st p \<noteq> None) of
          Inl err \<Rightarrow> Inl err
        | Inr samples \<Rightarrow>
            let st' = main_loop e a (st\<lparr>first := True, success := 0\<rparr>) samples
            in Inr (st', success st', length samples))"

section \<open>Pairing entries\<close>

text \<open>The key and the value that one turn of the first loop of \<open>discover_samples\<close> assigns.\<close>

definition r1_entry :: "(string \<Rightarrow> bool) \<Rightarrow> string \<Rightarrow> string \<times> string list" where
  "r1_entry ex r1 = (r1_sample_id r1, if ex (r2_of r1) then [r1, r2_of r1] else [r1])"

section \<open>A small cohort to run the script on\<close>

text \<open>
  A classifier stand-in that writes a report for the samples \<^verbatim>\<open>S1\<close> to \<^verbatim>\<open>S4\<close>,
  ends with return code 1 and no report for \<^verbatim>\<open>S8\<close>, and ends with return code 0 and no
  report for any other sample; and a reader stand-in that knows these reports: the two
  of the end-to-end scenario (\<^verbatim>\<open>S1\<close>: E. coli 10, B. subtilis 0; \<^verbatim>\<open>S2\<close>: E. coli 5,
  Lactobacillus 3), one that pandas cannot read, one with a blank name and a count
  that is no number, and a refined report with such a row.
\<close>

definition ex_tool :: "popen \<Rightarrow> fs \<Rightarrow> (int \<times> string \<times> string) \<times> fs" where
  "ex_tool call fsys =
     (case popen_args call of
        CmdString cmd \<Rightarrow>
          if contains ''/tmp/S1.kraken2.report'' cmd
          then ((0, [], []), fsys(''/tmp/S1.kraken2.report'' \<mapsto> ''one''))
          else if contains ''/tmp/S2.kraken2.report'' cmd
          then ((0, [], []), fsys(''/tmp/S2.kraken2.report'' \<mapsto> ''two''))
          else if contains ''/tmp/S3.kraken2.report'' cmd
          then ((0, [], []), fsys(''/tmp/S3.kraken2.report'' \<mapsto> ''bad''))
          else if contains ''/tmp/S4.kraken2.report'' cmd
          then ((0, [], []), fsys(''/tmp/S4.kraken2.report'' \<mapsto> ''odd''))
          else if contains ''/tmp/S8.kraken2.report'' cmd
          then ((1, [], ''kraken2: database error''), fsys)
          else ((0, [], []), fsys)
      | CmdArgs xs \<Rightarrow> ((127, [], []), fsys))"

definition ex_report_one :: frame where
  "ex_report_one = \<lparr>columns = kraken2_names, rows =
     [[Num 100, Num 17, Num 0, Txt ''G'', Num 561, Txt ''  Escherichia''],
      [Num 59, Num 10, Num 7, Txt ''S'', Num 562, Txt ''    Ecoli''],
      [Num 0, Num 0, Num 0, Txt ''S'', Num 1423, Txt ''    Bsubtilis'']]\<rparr>"

definition ex_report_two :: frame where
  "ex_report_two = \<lparr>columns = kraken2_names, rows =
     [[Num 62, Num 5, Num 5, Txt ''S'', Num 562, Txt ''    Ecoli''],
      [Num 38, Num 3, Num 3, Txt ''S'', Num 1578, Txt ''    Lactobacillus'']]\<rparr>"

definition ex_report_odd :: frame where
  "ex_report_odd = \<lparr>columns = kraken2_names, rows =
     [[Num 100, Txt ''abc'', Txt ''abc'', Txt ''S'', Num 1, Txt ''   '']]\<rparr>"

definition ex_report_est :: frame where
  "ex_report_est = \<lparr>columns = [''name'', ''taxonomy_id'', ''taxonomy_lvl'', ''kraken_assigned_reads'',
                                ''added_reads'', ''new_est_reads'', ''fraction_total_reads''],
     rows =
     [[Txt ''Ecoli '', Num 562, Txt ''S'', Num 10, Num 2, Num 12, NaN],
      [Txt ''  '', Num 1, Txt ''S'', Num 0, Num 0, Txt ''abc'', NaN]]\<rparr>"

definition ex_read :: "string \<Rightarrow> string list option \<Rightarrow> exn + frame" where
  "ex_read content names =
     (if content = ''one'' then Inr ex_report_one
      else if content = ''two'' then Inr ex_report_two
      else if content = ''odd'' then Inr ex_report_odd
      else if content = ''est'' then Inr ex_report_est
      else Inl (PandasError ''Error tokenizing data''))"

definition ex_env :: env where
  "ex_env = \<lparr>subprocess_run = ex_tool, pd_read_csv = ex_read,
             glob_glob = (\<lambda>pattern. []), isdir = (\<lambda>path. True)\<rparr>"

definition ex_args :: cli_args where
  "ex_args = \<lparr>input_dir = ''/in'', output_dir = ''/out'', kraken_db = ''/db'', threads = 4,
              use_bracken = False, debug = False, read_length = 150\<rparr>"

definition ex_state :: state where
  "ex_state = \<lparr>files = Map.empty, launched = [], csv_out = [], first = True, success = 0,
               failed_log = []\<rparr>"

text \<open>The state in which the report of a sample lies in \<^verbatim>\<open>/tmp\<close> with the given content.\<close>

definition ex_with_report :: "string \<Rightarrow> string \<Rightarrow> state" where
  "ex_with_report sample_id content =
     ex_state\<lparr>files := [kraken2_report sample_id \<mapsto> content]\<rparr>"


section \<open>Facts about dictionaries and discovery\<close>





lemma dict_set_fresh: "k \<notin> fst ` set d \<Longrightarrow> dict_set d k v = d @ [(k, v)]"
  by (induction d) auto





lemma starts_with_iff: "starts_with p s = (\<exists>t. s = p @ t)"
  by (induction p s rule: starts_with.induct) auto

lemma replace_no_marker: "\<not> contains ''_R1'' (replace ''_R1'' ''_R2'' s)"
proof (induction "''_R1''" "''_R2''" s rule: replace.induct)
  case 1
  then show ?case by simp
next
  case (2 c cs)
  show ?case
  proof (cases "starts_with ''_R1'' (c # cs)")
    case True
    then obtain t where t: "c # cs = ''_R1'' @ t" unfolding starts_with_iff by blast
    then have c: "c = CHR ''_''" and cs: "cs = ''R1'' @ t" by simp_all
    have ih: "\<not> contains ''_R1'' (replace ''_R1'' ''_R2'' t)"
      using 2(1) unfolding c cs by simp
    have "replace ''_R1'' ''_R2'' (c # cs) = ''_R2'' @ replace ''_R1'' ''_R2'' t"
      unfolding c cs by simp
    then show ?thesis using ih by simp
  next
    case False
    have ih: "\<not> contains ''_R1'' (replace ''_R1'' ''_R2'' cs)" using 2 False by simp
    have e: "replace ''_R1'' ''_R2'' (c # cs) = c # replace ''_R1'' ''_R2'' cs"
      using False by (simp only: replace.simps if_False simp_thms)
    have "\<not> starts_with ''_R1'' (c # replace ''_R1'' ''_R2'' cs)"
    proof
      assume a: "starts_with ''_R1'' (c # replace ''_R1'' ''_R2'' cs)"
      then have c: "c = CHR ''_''" by simp
      from a obtain t where t: "replace ''_R1'' ''_R2'' cs = ''R1'' @ t"
        unfolding starts_with_iff by auto
      have nsw: "\<not> starts_with ''R1'' cs" using False c by simp
      show False
      proof (cases cs)
        case Nil
        then show ?thesis using t by simp
      next
        case outer: (Cons x xs)
        show ?thesis
        proof (cases xs)
          case Nil
          then show ?thesis using t outer by (simp split: if_splits)
        next
          case (Cons y ys)
          then show ?thesis using t outer nsw by (simp split: if_splits)
        qed
      qed
    qed
    then have "\<not> contains ''_R1'' (c # replace ''_R1'' ''_R2'' cs)"
      using ih by (simp only: contains.simps simp_thms)
    then show ?thesis unfolding e .
  qed
qed

lemma contains_append: "contains sub t \<Longrightarrow> contains sub (s @ t)"
  by (induction s) auto

lemma contains_basename: "contains sub (basename p) \<Longrightarrow> contains sub p"
proof -
  assume a: "contains sub (basename p)"
  have "p = rev (dropWhile (\<lambda>c. c \<noteq> CHR ''/'') (rev p)) @ basename p"
    unfolding basename_def by (metis rev_append rev_rev_ident takeWhile_dropWhile_id)
  then show ?thesis using a contains_append by metis
qed

lemma r2_of_no_marker: "\<not> contains ''_R1'' (basename (r2_of s))"
  using contains_basename replace_no_marker unfolding r2_of_def by blast

lemma fst_r1_entry: "fst (r1_entry ex r) = r1_sample_id r"
  by (simp add: r1_entry_def)

lemma snd_r1_entry: "snd (r1_entry ex r) = (if ex (r2_of r) then [r, r2_of r] else [r])"
  by (simp add: r1_entry_def)

lemma foldl_register_r1_fresh:
  "distinct (map fst d @ map r1_sample_id rs) \<Longrightarrow>
     foldl (register_r1 ex) d rs = d @ map (r1_entry ex) rs"
proof (induction rs arbitrary: d)
  case Nil
  then show ?case by simp
next
  case (Cons r rs)
  have k: "r1_sample_id r \<notin> fst ` set d" using Cons.prems by auto
  have s: "register_r1 ex d r = d @ [r1_entry ex r]"
    using k by (simp add: register_r1_def r1_entry_def Let_def dict_set_fresh)
  have "distinct (map fst (d @ [r1_entry ex r]) @ map r1_sample_id rs)"
    using Cons.prems by (auto simp: fst_r1_entry)
  then show ?case using Cons.IH s by simp
qed

lemma foldl_register_unpaired_fresh:
  "distinct (map fst d @ map unpaired_sample_id us) \<Longrightarrow>
     foldl register_unpaired d us = d @ map (\<lambda>f. (unpaired_sample_id f, [f])) us"
proof (induction us arbitrary: d)
  case Nil
  then show ?case by simp
next
  case (Cons u us)
  have k: "unpaired_sample_id u \<notin> fst ` set d" using Cons.prems by auto
  have s: "register_unpaired d u = d @ [(unpaired_sample_id u, [u])]"
    using k by (simp add: register_unpaired_def dict_set_fresh)
  have "distinct (map fst (d @ [(unpaired_sample_id u, [u])]) @ map unpaired_sample_id us)"
    using Cons.prems by auto
  then show ?case using Cons.IH s by simp
qed

lemma set_concat_r1_entries:
  "set (concat (map snd (map (r1_entry ex) rs))) = set rs \<union> {r2_of r |r. r \<in> set rs \<and> ex (r2_of r)}"
  by (induction rs) (auto simp: snd_r1_entry)

lemma distinct_concat_r1_entries:
  assumes "distinct rs" and "\<forall>r \<in> set rs. contains ''_R1'' (basename r)"
    and "inj_on r2_of {r \<in> set rs. ex (r2_of r)}"
  shows "distinct (concat (map snd (map (r1_entry ex) rs)))"
  using assms
proof (induction rs)
  case Nil
  then show ?case by simp
next
  case (Cons r rs)
  have m: "\<And>x y. x \<in> set (r # rs) \<Longrightarrow> x \<noteq> r2_of y"
    using Cons.prems(2) r2_of_no_marker by metis
  have inj': "inj_on r2_of {x \<in> set rs. ex (r2_of x)}"
    using Cons.prems(3) by (rule inj_on_subset) auto
  have ih: "distinct (concat (map snd (map (r1_entry ex) rs)))"
    using Cons.IH Cons.prems inj' by simp
  have r2: "ex (r2_of r) \<Longrightarrow> r2_of r \<notin> {r2_of x |x. x \<in> set rs \<and> ex (r2_of x)}"
  proof
    assume e: "ex (r2_of r)" and "r2_of r \<in> {r2_of x |x. x \<in> set rs \<and> ex (r2_of x)}"
    then obtain x where x: "x \<in> set rs" "ex (r2_of x)" "r2_of r = r2_of x" by auto
    then have "r = x" using Cons.prems(3) e by (auto simp: inj_on_def)
    then show False using x(1) Cons.prems(1) by simp
  qed
  show ?case
    using ih m r2 Cons.prems(1)
    by (auto simp: snd_r1_entry set_concat_r1_entries[simplified])
qed

section \<open>Facts about the tools, the parser and the loop\<close>

lemma run_cmd_frame:
  "run_cmd e cmd check st = (r, st') \<Longrightarrow>
     csv_out st' = csv_out st \<and> first st' = first st \<and> success st' = success st \<and>
     failed_log st' = failed_log st \<and>
     launched st' = launched st @ [\<lparr>popen_args = CmdString cmd, popen_shell = True\<rparr>]"
  by (auto simp: run_cmd_def Let_def split: prod.splits if_splits)

lemma run_kraken2_frame:
  "run_kraken2 e sid fqs db n st = (r, st') \<Longrightarrow>
     csv_out st' = csv_out st \<and> first st' = first st \<and> success st' = success st \<and>
     failed_log st' = failed_log st \<and>
     launched st' = launched st @
       [\<lparr>popen_args = CmdString (join '' '' (kraken2_cmd sid fqs db n)), popen_shell = True\<rparr>]"
  unfolding run_kraken2_def Let_def
  by (auto split: prod.splits sum.splits option.splits if_splits dest!: run_cmd_frame)

lemma run_bracken_out:
  "run_bracken e rep db rl lvl st = (Inr out, st') \<Longrightarrow>
     out = replace ''.kraken2.report'' ''.bracken'' rep"
  unfolding run_bracken_def Let_def
  by (auto split: prod.splits sum.splits if_splits)

lemma report_neq_output: "kraken2_output sid \<noteq> kraken2_report sid"
  by (simp add: kraken2_output_def kraken2_report_def)

lemma run_kraken2_report:
  "run_kraken2 e sid fqs db n st = (Inr rep, st') \<Longrightarrow>
     rep = kraken2_report sid \<and> files st' rep \<noteq> None"
  unfolding run_kraken2_def Let_def
  using report_neq_output[of sid]
  by (auto split: prod.splits sum.splits option.splits if_splits)

lemma run_bracken_frame:
  "run_bracken e rep db rl lvl st = (r, st') \<Longrightarrow>
     csv_out st' = csv_out st \<and> first st' = first st \<and> success st' = success st \<and>
     failed_log st' = failed_log st \<and>
     launched st' = launched st @
       [\<lparr>popen_args = CmdString (bracken_cmd db rep (replace ''.kraken2.report'' ''.bracken'' rep) rl lvl),
         popen_shell = True\<rparr>]"
  unfolding run_bracken_def Let_def
  by (auto split: prod.splits sum.splits option.splits if_splits dest!: run_cmd_frame)

lemma process_sample_outcome:
  fixes e a st s
  defines "st' \<equiv> process_sample e a st s"
  shows "(csv_out st' = csv_out st \<and> first st' = first st \<and> success st' = success st \<and>
          (\<exists>err. failed_log st' = failed_log st @ [(fst s, err)]))
       \<or> (\<exists>df rep st2. parse_species_abundance e rep (use_bracken a) st2 = Inr df \<and>
            rep = (if use_bracken a
                   then replace ''.kraken2.report'' ''.bracken'' (kraken2_report (fst s))
                   else kraken2_report (fst s)) \<and>
            csv_out st' = to_csv_append (sample_row df (fst s)) (first st) (csv_out st) \<and>
            first st' = False \<and> success st' = success st + 1 \<and>
            (failed_log st' = failed_log st \<or>
             (use_bracken a \<and> (\<exists>err. failed_log st' = failed_log st @ [(fst s, err)]))))"
proof -
  obtain r st1 where k: "run_kraken2 e (fst s) (snd s) (kraken_db a) (threads a) st = (r, st1)"
    by force
  note fr1 = run_kraken2_frame[OF k]
  show ?thesis
  proof (cases r)
    case (Inl err)
    then have "st' = log_failure (fst s) err st1"
      using k by (simp add: st'_def process_sample_def Let_def)
    then show ?thesis using fr1 by (auto simp: log_failure_def)
  next
    case rep: (Inr rep)
    note kr = run_kraken2_report[OF k[unfolded rep]]
    obtain r2 st2 where b: "(if use_bracken a
        then run_bracken e rep (kraken_db a) (read_length a) ''S'' st1
        else (Inr rep, st1)) = (r2, st2)"
      by force
    have fr2: "csv_out st2 = csv_out st \<and> first st2 = first st \<and> success st2 = success st \<and>
        failed_log st2 = failed_log st"
      using b fr1 by (auto split: if_splits dest!: run_bracken_frame)
    have nb: "\<not> use_bracken a \<Longrightarrow> r2 = Inr rep \<and> st2 = st1" using b by simp
    have yb: "\<And>out. r2 = Inr out \<Longrightarrow> out = (if use_bracken a
                   then replace ''.kraken2.report'' ''.bracken'' (kraken2_report (fst s))
                   else kraken2_report (fst s))"
      using b kr by (auto split: if_splits dest: run_bracken_out)
    show ?thesis
    proof (cases r2)
      case (Inl err)
      then have "st' = log_failure (fst s) err st2"
        using k b rep by (simp add: st'_def process_sample_def Let_def)
      then show ?thesis using fr2 by (auto simp: log_failure_def)
    next
      case rtu: (Inr rtu)
      show ?thesis
      proof (cases "parse_species_abundance e rtu (use_bracken a) st2")
        case (Inl err)
        then have "st' = log_failure (fst s) err st2"
          using k b rep rtu by (simp add: st'_def process_sample_def Let_def)
        then show ?thesis using fr2 by (auto simp: log_failure_def)
      next
        case df: (Inr df)
        define st3 where "st3 = st2\<lparr>csv_out := to_csv_append (sample_row df (fst s)) (first st2) (csv_out st2),
                                     first := False, success := Suc (success st2)\<rparr>"
        have ps: "st' = (case os_remove rep st3 of
                           Inl err \<Rightarrow> log_failure (fst s) err st3
                         | Inr st4 \<Rightarrow>
                             if use_bracken a
                             then (case os_remove rtu st4 of
                                     Inl err \<Rightarrow> log_failure (fst s) err st4
                                   | Inr st5 \<Rightarrow> st5)
                             else st4)"
          using k b rep rtu df unfolding st3_def by (simp add: st'_def process_sample_def Let_def)
        have f3: "csv_out st3 = to_csv_append (sample_row df (fst s)) (first st) (csv_out st)"
          "first st3 = False" "success st3 = success st + 1" "failed_log st3 = failed_log st"
          using fr2 by (simp_all add: st3_def)
        have rm: "\<not> use_bracken a \<Longrightarrow> files st3 rep \<noteq> None"
          using nb kr by (auto simp: st3_def)
        have "csv_out st' = csv_out st3 \<and> first st' = first st3 \<and> success st' = success st3 \<and>
              (failed_log st' = failed_log st3 \<or>
               (use_bracken a \<and> (\<exists>err. failed_log st' = failed_log st3 @ [(fst s, err)])))"
          unfolding ps using rm
          by (auto simp: os_remove_def log_failure_def split: if_splits)
        then show ?thesis using f3 df yb[OF rtu] by metis
      qed
    qed
  qed
qed

lemma process_sample_counts:
  fixes e a st s
  defines "st' \<equiv> process_sample e a st s"
  shows "\<exists>k f. k \<le> 1 \<and> f \<le> 1 \<and> 1 \<le> k + f \<and> (\<not> use_bracken a \<longrightarrow> k + f = 1) \<and>
           success st' = success st + k \<and>
           length (failed_log st') = length (failed_log st) + f \<and>
           length (csv_out st') = length (csv_out st) + k + (if first st \<and> k = 1 then 1 else 0) \<and>
           (first st' \<longleftrightarrow> first st \<and> k = 0)"
proof -
  from process_sample_outcome[of e a st s] consider
    (failed) "csv_out st' = csv_out st" "first st' = first st" "success st' = success st"
      "length (failed_log st') = length (failed_log st) + 1"
  | (written) f where "length (csv_out st') = length (csv_out st) + 1 + (if first st then 1 else 0)"
      "first st' = False" "success st' = success st + 1" "f \<le> 1" "\<not> use_bracken a \<longrightarrow> f = 0"
      "length (failed_log st') = length (failed_log st) + f"
    unfolding st'_def[symmetric]
  proof (elim disjE exE conjE, goal_cases)
    case (1 err)
    then show ?case by simp
  next
    case (2 df rep st2)
    then show ?case by (simp add: to_csv_append_def)
  next
    case (3 df rep st2 err)
    then show ?case by (simp add: to_csv_append_def)
  qed
  then show ?thesis
  proof cases
    case failed
    then show ?thesis by (intro exI[of _ 0] exI[of _ 1]) simp
  next
    case written
    then show ?thesis by (intro exI[of _ 1] exI[of _ f]) auto
  qed
qed

lemma main_loop_counts:
  "\<exists>k f. k \<le> length samples \<and> f \<le> length samples \<and> length samples \<le> k + f \<and>
          (\<not> use_bracken a \<longrightarrow> k + f = length samples) \<and>
          success (main_loop e a st samples) = success st + k \<and>
          length (failed_log (main_loop e a st samples)) = length (failed_log st) + f \<and>
          length (csv_out (main_loop e a st samples))
            = length (csv_out st) + k + (if first st \<and> 0 < k then 1 else 0) \<and>
          (first (main_loop e a st samples) \<longleftrightarrow> first st \<and> k = 0)"
proof (induction samples arbitrary: st)
  case Nil
  show ?case by (simp add: main_loop_def)
next
  case (Cons s ss)
  let ?st1 = "process_sample e a st s"
  have ml: "main_loop e a st (s # ss) = main_loop e a ?st1 ss" by (simp add: main_loop_def)
  obtain k1 f1 where s1: "k1 \<le> 1" "f1 \<le> 1" "1 \<le> k1 + f1" "\<not> use_bracken a \<longrightarrow> k1 + f1 = 1"
      "success ?st1 = success st + k1"
      "length (failed_log ?st1) = length (failed_log st) + f1"
      "length (csv_out ?st1) = length (csv_out st) + k1 + (if first st \<and> k1 = 1 then 1 else 0)"
      "first ?st1 \<longleftrightarrow> first st \<and> k1 = 0"
    using process_sample_counts[of a e st s] by blast
  obtain k2 f2 where s2: "k2 \<le> length ss" "f2 \<le> length ss" "length ss \<le> k2 + f2"
      "\<not> use_bracken a \<longrightarrow> k2 + f2 = length ss"
      "success (main_loop e a ?st1 ss) = success ?st1 + k2"
      "length (failed_log (main_loop e a ?st1 ss)) = length (failed_log ?st1) + f2"
      "length (csv_out (main_loop e a ?st1 ss))
         = length (csv_out ?st1) + k2 + (if first ?st1 \<and> 0 < k2 then 1 else 0)"
      "first (main_loop e a ?st1 ss) \<longleftrightarrow> first ?st1 \<and> k2 = 0"
    using Cons.IH[of ?st1] by blast
  show ?case
    unfolding ml
    apply (rule exI[of _ "k1 + k2"], rule exI[of _ "f1 + f2"])
    using s1 s2 by (auto split: if_splits)
qed

lemma process_sample_launched:
  "launched (process_sample e a st s) = launched st @
       [\<lparr>popen_args = CmdString (join '' '' (kraken2_cmd (fst s) (snd s) (kraken_db a) (threads a))),
         popen_shell = True\<rparr>]
   \<or> (use_bracken a \<and> launched (process_sample e a st s) = launched st @
       [\<lparr>popen_args = CmdString (join '' '' (kraken2_cmd (fst s) (snd s) (kraken_db a) (threads a))),
         popen_shell = True\<rparr>,
        \<lparr>popen_args = CmdString (bracken_cmd (kraken_db a) (kraken2_report (fst s))
            (replace ''.kraken2.report'' ''.bracken'' (kraken2_report (fst s))) (read_length a) ''S''),
         popen_shell = True\<rparr>])"
proof -
  obtain r st1 where k: "run_kraken2 e (fst s) (snd s) (kraken_db a) (threads a) st = (r, st1)"
    by force
  note fr1 = run_kraken2_frame[OF k]
  show ?thesis
  proof (cases r)
    case (Inl err)
    then have "process_sample e a st s = log_failure (fst s) err st1"
      using k by (simp add: process_sample_def Let_def)
    then show ?thesis using fr1 by (simp add: log_failure_def)
  next
    case rep: (Inr rep)
    note kr = run_kraken2_report[OF k[unfolded rep]]
    obtain r2 st2 where b: "(if use_bracken a
        then run_bracken e rep (kraken_db a) (read_length a) ''S'' st1
        else (Inr rep, st1)) = (r2, st2)"
      by force
    have l2: "launched st2 = launched st1 \<and> \<not> use_bracken a \<or>
        (use_bracken a \<and> launched st2 = launched st1 @
          [\<lparr>popen_args = CmdString (bracken_cmd (kraken_db a) (kraken2_report (fst s))
            (replace ''.kraken2.report'' ''.bracken'' (kraken2_report (fst s))) (read_length a) ''S''),
           popen_shell = True\<rparr>])"
      using b kr by (auto split: if_splits dest!: run_bracken_frame)
    have "launched (process_sample e a st s) = launched st2"
      using k b rep unfolding process_sample_def Let_def
      by (auto simp: os_remove_def log_failure_def split: sum.splits if_splits)
    then show ?thesis using l2 fr1 by auto
  qed
qed

lemma main_loop_launched:
  "\<forall>c \<in> set (launched (main_loop e a st samples)).
      c \<in> set (launched st) \<or> (popen_shell c \<and> (\<exists>cmd. popen_args c = CmdString cmd))"
proof (induction samples arbitrary: st)
  case Nil
  show ?case by (simp add: main_loop_def)
next
  case (Cons s ss)
  have ml: "main_loop e a st (s # ss) = main_loop e a (process_sample e a st s) ss"
    by (simp add: main_loop_def)
  have "\<forall>c \<in> set (launched (process_sample e a st s)).
      c \<in> set (launched st) \<or> (popen_shell c \<and> (\<exists>cmd. popen_args c = CmdString cmd))"
    using process_sample_launched[of e a st s] by auto
  then show ?case unfolding ml using Cons.IH[of "process_sample e a st s"] by blast
qed

lemma last_dropWhile_eq: "dropWhile P xs \<noteq> [] \<Longrightarrow> last (dropWhile P xs) = last xs"
  by (induction xs) (auto split: if_splits)

lemma strip_trimmed:
  "strip s = [] \<or> (\<not> is_space (hd (strip s)) \<and> \<not> is_space (last (strip s)))"
proof -
  let ?t = "dropWhile is_space s"
  let ?u = "dropWhile is_space (rev ?t)"
  show ?thesis
  proof (cases "?u = []")
    case True
    then show ?thesis by (simp add: strip_def)
  next
    case False
    have t: "?t \<noteq> []"
    proof
      assume e: "?t = []"
      have "?u = []" unfolding e by simp
      then show False using False by blast
    qed
    have 1: "\<not> is_space (hd ?u)" using False hd_dropWhile by blast
    have "last ?u = last (rev ?t)" using False by (rule last_dropWhile_eq)
    also have "\<dots> = hd ?t" using t by (simp add: last_rev)
    finally have 2: "\<not> is_space (last ?u)" using t hd_dropWhile by metis
    have "hd (strip s) = last ?u" "last (strip s) = hd ?u"
      using False by (simp_all add: strip_def hd_rev last_rev)
    then show ?thesis using 1 2 by simp
  qed
qed

lemma column_kraken2:
  "column (df\<lparr>columns := kraken2_names\<rparr>) ''name'' r = cell_at r 5"
  "column (df\<lparr>columns := kraken2_names\<rparr>) ''reads_rooted'' r = cell_at r 1"
  "column (df\<lparr>columns := kraken2_names\<rparr>) ''rank'' r = cell_at r 3"
  by (simp_all add: column_def kraken2_names_def eval_nat_numeral)

lemma str_strip_Inr:
  "str_strip col df = Inr recs \<Longrightarrow> recs = map (\<lambda>(n, c). (strip_cell n, c)) df"
  by (auto simp: str_strip_def split: if_splits)

lemma strip_cell_trimmed:
  "strip_cell n = NaN \<or>
   (\<exists>s. strip_cell n = Txt s \<and> (s = [] \<or> (\<not> is_space (hd s) \<and> \<not> is_space (last s))))"
  using strip_trimmed by (cases n) auto

lemma sample_row_labels:
  "map fst (sample_row df sid) =
     (if Txt ''SampleID'' \<in> set (map fst df) then map fst df
      else map fst df @ [Txt ''SampleID''])"
  by (auto simp: sample_row_def set_column_def split: prod.splits)

lemma sample_row_values:
  "map snd (sample_row df sid) =
     (if Txt ''SampleID'' \<in> set (map fst df)
      then map (\<lambda>(l, x). if l = Txt ''SampleID'' then Txt sid else x) df
      else map snd df @ [Txt sid])"
  by (auto simp: sample_row_def set_column_def split: prod.splits)


section \<open>The claims\<close>

subsection \<open>C1: how the abundance table is written\<close>

text \<open>
  Claim C1 asks for a two-phase aggregation: nothing written before all samples were
  attempted, one column per taxon of the union, a value or 0 in every row.
  The script appends instead (\<^verbatim>\<open>to_csv(mode="a", header=first)\<close>). On the end-to-end
  scenario of the specification the table already holds the header and the row of \<^verbatim>\<open>S1\<close>
  before \<^verbatim>\<open>S2\<close> is attempted, and at the end the header has no column for
  Lactobacillus, which \<^verbatim>\<open>S2\<close> observed: its count 3 stands under B. subtilis.
\<close>

theorem table_written_per_sample_counterexample:
  "csv_out (main_loop ex_env ex_args ex_state [(''S1'', [''/in/S1.fastq''])]) = [[Txt ''Ecoli'', Txt ''Bsubtilis'', Txt ''SampleID''], [Num 10, Num 0, Txt ''S1'']]
   \<and> csv_out (main_loop ex_env ex_args ex_state [(''S1'', [''/in/S1.fastq'']), (''S2'', [''/in/S2.fastq''])]) = [[Txt ''Ecoli'', Txt ''Bsubtilis'', Txt ''SampleID''], [Num 10, Num 0, Txt ''S1''], [Num 5, Num 3, Txt ''S2'']]
   \<and> Txt ''Lactobacillus'' \<notin> set (hd (csv_out (main_loop ex_env ex_args ex_state [(''S1'', [''/in/S1.fastq'']), (''S2'', [''/in/S2.fastq''])])))"
  by (intro conjI; code_simp)

text \<open>
  Claim C1, amended: aggregation is one-phase, and what one turn of the loop does to the
  table is fixed by three results: that of the classifier run for this sample, that of
  the refiner run for it (when refinement is on), and that of parsing this sample's
  report (the refined one when refinement is on) in the files these runs left. When one
  of the three is an error, the table, \<open>success\<close> and \<open>first\<close> stay as they were and
  that error is logged for the sample. Otherwise the turn appends at once, before any
  later sample is attempted: a header line when no row was written before, then the line
  of values. The header holds the taxon names of this report in report order, followed by
  \<^verbatim>\<open>SampleID\<close>; the values are the counts of this report in the same order, followed
  by the sample identifier (when a taxon already bears the label \<^verbatim>\<open>SampleID\<close>, nothing
  is added and the identifier is set under that label). \<open>success\<close> is raised by one. No
  union of taxa is formed and no 0 is filled in.
\<close>

theorem process_sample_appends_own_row:
  "(let sid = fst s;
        k = run_kraken2 e sid (snd s) (kraken_db a) (threads a) st;
        b = (if use_bracken a
             then run_bracken e (kraken2_report sid) (kraken_db a) (read_length a) ''S'' (snd k)
             else (Inr (kraken2_report sid), snd k));
        st' = process_sample e a st s;
        failed = (\<lambda>err. csv_out st' = csv_out st \<and> success st' = success st \<and>
                         first st' = first st \<and> failed_log st' = failed_log st @ [(sid, err)])
    in case fst k of
         Inl err \<Rightarrow> failed err
       | Inr kraken_report \<Rightarrow>
           (case fst b of
              Inl err \<Rightarrow> failed err
            | Inr report \<Rightarrow>
                report = (if use_bracken a
                          then replace ''.kraken2.report'' ''.bracken'' (kraken2_report sid)
                          else kraken2_report sid) \<and>
                (case parse_species_abundance e report (use_bracken a) (snd b) of
                   Inl err \<Rightarrow> failed err
                 | Inr df \<Rightarrow>
                     csv_out st' = csv_out st
                       @ (if first st
                          then [if Txt ''SampleID'' \<in> set (map fst df) then map fst df
                                else map fst df @ [Txt ''SampleID'']]
                          else [])
                       @ [if Txt ''SampleID'' \<in> set (map fst df)
                          then map (\<lambda>(l, x). if l = Txt ''SampleID'' then Txt sid else x) df
                          else map snd df @ [Txt sid]] \<and>
                     success st' = success st + 1 \<and> first st' = False \<and>
                     (failed_log st' = failed_log st \<or>
                      (use_bracken a \<and> (\<exists>err. failed_log st' = failed_log st @ [(sid, err)]))))))"
proof -
  obtain r st1 where k: "run_kraken2 e (fst s) (snd s) (kraken_db a) (threads a) st = (r, st1)"
    by force
  note fr1 = run_kraken2_frame[OF k]
  obtain r2 st2 where b: "(if use_bracken a
      then run_bracken e (kraken2_report (fst s)) (kraken_db a) (read_length a) ''S'' st1
      else (Inr (kraken2_report (fst s)), st1)) = (r2, st2)"
    by force
  have fr2: "csv_out st2 = csv_out st \<and> first st2 = first st \<and> success st2 = success st \<and>
      failed_log st2 = failed_log st"
    using b fr1 by (auto split: if_splits dest!: run_bracken_frame)
  let ?st' = "process_sample e a st s"
  let ?failed = "\<lambda>err. csv_out ?st' = csv_out st \<and> success ?st' = success st \<and>
                         first ?st' = first st \<and> failed_log ?st' = failed_log st @ [(fst s, err)]"
  have goal: "case r of
         Inl err \<Rightarrow> ?failed err
       | Inr kraken_report \<Rightarrow>
           (case r2 of
              Inl err \<Rightarrow> ?failed err
            | Inr report \<Rightarrow>
                report = (if use_bracken a
                          then replace ''.kraken2.report'' ''.bracken'' (kraken2_report (fst s))
                          else kraken2_report (fst s)) \<and>
                (case parse_species_abundance e report (use_bracken a) st2 of
                   Inl err \<Rightarrow> ?failed err
                 | Inr df \<Rightarrow>
                     csv_out ?st' = csv_out st
                       @ (if first st
                          then [if Txt ''SampleID'' \<in> set (map fst df) then map fst df
                                else map fst df @ [Txt ''SampleID'']]
                          else [])
                       @ [if Txt ''SampleID'' \<in> set (map fst df)
                          then map (\<lambda>(l, x). if l = Txt ''SampleID'' then Txt (fst s) else x) df
                          else map snd df @ [Txt (fst s)]] \<and>
                     success ?st' = success st + 1 \<and> first ?st' = False \<and>
                     (failed_log ?st' = failed_log st \<or>
                      (use_bracken a \<and> (\<exists>err. failed_log ?st' = failed_log st @ [(fst s, err)])))))"
  proof (cases r)
    case (Inl err)
    then have "?st' = log_failure (fst s) err st1"
      using k by (simp add: process_sample_def Let_def)
    then show ?thesis using fr1 Inl by (simp add: log_failure_def)
  next
    case rep: (Inr rep)
    note kr = run_kraken2_report[OF k[unfolded rep]]
    have b': "(if use_bracken a
        then run_bracken e rep (kraken_db a) (read_length a) ''S'' st1
        else (Inr rep, st1)) = (r2, st2)"
      using b kr by (auto split: if_splits)
    have nb: "\<not> use_bracken a \<Longrightarrow> r2 = Inr rep \<and> st2 = st1" using b' by simp
    have yb: "\<And>out. r2 = Inr out \<Longrightarrow> out = (if use_bracken a
                   then replace ''.kraken2.report'' ''.bracken'' (kraken2_report (fst s))
                   else kraken2_report (fst s))"
      using b' kr by (auto split: if_splits dest: run_bracken_out)
    show ?thesis
    proof (cases r2)
      case (Inl err)
      then have "?st' = log_failure (fst s) err st2"
        using k b' rep by (simp add: process_sample_def Let_def)
      then show ?thesis using fr2 Inl rep by (simp add: log_failure_def)
    next
      case rtu: (Inr rtu)
      show ?thesis
      proof (cases "parse_species_abundance e rtu (use_bracken a) st2")
        case (Inl err)
        then have "?st' = log_failure (fst s) err st2"
          using k b' rep rtu by (simp add: process_sample_def Let_def)
        then show ?thesis using fr2 Inl rep rtu yb[OF rtu] by (simp add: log_failure_def)
      next
        case df: (Inr df)
        define st3 where "st3 = st2\<lparr>csv_out := to_csv_append (sample_row df (fst s)) (first st2) (csv_out st2),
                                     first := False, success := Suc (success st2)\<rparr>"
        have ps: "?st' = (case os_remove rep st3 of
                           Inl err \<Rightarrow> log_failure (fst s) err st3
                         | Inr st4 \<Rightarrow>
                             if use_bracken a
                             then (case os_remove rtu st4 of
                                     Inl err \<Rightarrow> log_failure (fst s) err st4
                                   | Inr st5 \<Rightarrow> st5)
                             else st4)"
          using k b' rep rtu df unfolding st3_def by (simp add: process_sample_def Let_def)
        have f3: "csv_out st3 = to_csv_append (sample_row df (fst s)) (first st) (csv_out st)"
          "first st3 = False" "success st3 = success st + 1" "failed_log st3 = failed_log st"
          using fr2 by (simp_all add: st3_def)
        have rm: "\<not> use_bracken a \<Longrightarrow> files st3 rep \<noteq> None"
          using nb kr by (auto simp: st3_def)
        have "csv_out ?st' = csv_out st3 \<and> first ?st' = first st3 \<and> success ?st' = success st3 \<and>
              (failed_log ?st' = failed_log st3 \<or>
               (use_bracken a \<and> (\<exists>err. failed_log ?st' = failed_log st3 @ [(fst s, err)])))"
          unfolding ps using rm
          by (auto simp: os_remove_def log_failure_def split: if_splits)
        then have "csv_out ?st' = csv_out st
                       @ (if first st then [map fst (sample_row df (fst s))] else [])
                       @ [map snd (sample_row df (fst s))] \<and>
                     success ?st' = success st + 1 \<and> first ?st' = False \<and>
                     (failed_log ?st' = failed_log st \<or>
                      (use_bracken a \<and> (\<exists>err. failed_log ?st' = failed_log st @ [(fst s, err)])))"
          using f3 by (simp add: to_csv_append_def)
        then show ?thesis
          using rep rtu df yb[OF rtu]
          by (simp add: sample_row_labels sample_row_values)
      qed
    qed
  qed
  show ?thesis
    unfolding Let_def k b fst_conv snd_conv by (rule goal)
qed

theorem process_sample_appends_own_row_witness:
  "csv_out (process_sample ex_env ex_args ex_state (''S1'', [''/in/S1.fastq''])) = [[Txt ''Ecoli'', Txt ''Bsubtilis'', Txt ''SampleID''], [Num 10, Num 0, Txt ''S1'']]
   \<and> success (process_sample ex_env ex_args ex_state (''S1'', [''/in/S1.fastq''])) = 1
   \<and> failed_log (process_sample ex_env ex_args ex_state (''S1'', [''/in/S1.fastq''])) = []"
proof -
  have k: "fst (run_kraken2 ex_env ''S1'' [''/in/S1.fastq''] (kraken_db ex_args) (threads ex_args)
                  ex_state) = Inr (kraken2_report ''S1'')"
    by code_simp
  have p: "parse_species_abundance ex_env (kraken2_report ''S1'') False
             (snd (run_kraken2 ex_env ''S1'' [''/in/S1.fastq''] (kraken_db ex_args) (threads ex_args)
                     ex_state))
           = Inr [(Txt ''Ecoli'', Num 10), (Txt ''Bsubtilis'', Num 0)]"
    by code_simp
  have st: "first ex_state" "csv_out ex_state = []" "success ex_state = 0" "failed_log ex_state = []"
    by (simp_all add: ex_state_def)
  have ar: "use_bracken ex_args = False"
    by (simp add: ex_args_def)
  show ?thesis
    using process_sample_appends_own_row[where s = "(''S1'', [''/in/S1.fastq''])" and e = ex_env and a = ex_args
        and st = ex_state]
    by (simp add: Let_def k p st ar)
qed

subsection \<open>C2: how external tools are launched\<close>

text \<open>
  Claim C2 asks that the arguments of every external tool reach the process-launch
  primitive as a sequence of strings. The script joins them with blanks and hands the one
  string to the shell (\<^verbatim>\<open>subprocess.run(cmd, shell=True)\<close>): for a paired, compressed sample
  the only launch is the command string below.
\<close>

theorem kraken2_launch_is_shell_string_counterexample:
  "launched (process_sample ex_env ex_args ex_state
       (''S2'', [''/in/S2_R1.fastq.gz'', ''/in/S2_R2.fastq.gz'']))
   = [\<lparr>popen_args = CmdString
          (''kraken2 --db '' @ squote ''/db''
           @ '' --threads 4 --use-names --report-zero-counts --memory-mapping --report ''
           @ squote ''/tmp/S2.kraken2.report'' @ '' --output '' @ squote ''/tmp/S2.kraken2.out''
           @ '' --paired --gzip-compressed '' @ squote ''/in/S2_R1.fastq.gz''
           @ '' '' @ squote ''/in/S2_R2.fastq.gz''),
        popen_shell = True\<rparr>]"
  by code_simp

text \<open>
  Claim C2, amended: every external tool is launched through the shell with one command
  string. \<open>run_kraken2\<close> launches exactly the blank-joined list \<open>kraken2_cmd\<close>,
  \<open>run_bracken\<close> exactly the string \<open>bracken_cmd\<close>, in which paths and names derived
  from sample identifiers stand between single quotes; and every command the loop
  launches is such a shell string.
\<close>

theorem external_tools_run_through_shell:
  "launched (snd (run_kraken2 e sid fqs db n st)) = launched st @
       [\<lparr>popen_args = CmdString (join '' '' (kraken2_cmd sid fqs db n)), popen_shell = True\<rparr>]
   \<and> launched (snd (run_bracken e rep db rl lvl st)) = launched st @
       [\<lparr>popen_args = CmdString (bracken_cmd db rep (replace ''.kraken2.report'' ''.bracken'' rep) rl lvl),
         popen_shell = True\<rparr>]
   \<and> (\<forall>c \<in> set (launched (main_loop e a st samples)).
        c \<in> set (launched st) \<or> (popen_shell c \<and> (\<exists>cmd. popen_args c = CmdString cmd)))"
  using run_kraken2_frame[of e sid fqs db n st] run_bracken_frame[of e rep db rl lvl st]
    main_loop_launched[of e a st samples]
  by (metis prod.collapse)

theorem external_tools_run_through_shell_witness:
  "launched (snd (run_kraken2 ex_env ''S1'' [''/in/S1.fastq''] ''/db'' 4 ex_state))
   = [\<lparr>popen_args = CmdString
          (''kraken2 --db '' @ squote ''/db''
           @ '' --threads 4 --use-names --report-zero-counts --memory-mapping --report ''
           @ squote ''/tmp/S1.kraken2.report'' @ '' --output '' @ squote ''/tmp/S1.kraken2.out''
           @ '' '' @ squote ''/in/S1.fastq''),
        popen_shell = True\<rparr>]"
proof -
  have "launched (snd (run_kraken2 ex_env ''S1'' [''/in/S1.fastq''] ''/db'' 4 ex_state))
      = launched ex_state @
         [\<lparr>popen_args = CmdString (join '' '' (kraken2_cmd ''S1'' [''/in/S1.fastq''] ''/db'' 4)),
           popen_shell = True\<rparr>]"
    using external_tools_run_through_shell[of ex_env "''S1''" "[''/in/S1.fastq'']" "''/db''" 4 ex_state]
    by (rule conjunct1)
  also have "\<dots> = [\<lparr>popen_args = CmdString
          (''kraken2 --db '' @ squote ''/db''
           @ '' --threads 4 --use-names --report-zero-counts --memory-mapping --report ''
           @ squote ''/tmp/S1.kraken2.report'' @ '' --output '' @ squote ''/tmp/S1.kraken2.out''
           @ '' '' @ squote ''/in/S1.fastq''),
        popen_shell = True\<rparr>]"
    by code_simp
  finally show ?thesis .
qed

subsection \<open>C3: two files with one sample identifier\<close>




subsection \<open>C4: the report files of a sample that fails\<close>

text \<open>
  Claim C4: the artifacts of a sample are deleted on every exit path. The script deletes
  them at the end of the \<^verbatim>\<open>try\<close> body only. For \<^verbatim>\<open>S3\<close>, whose report pandas cannot read,
  the failure is logged and the report stays in \<^verbatim>\<open>/tmp\<close>; for \<^verbatim>\<open>S1\<close>, which succeeds,
  the report is gone.
\<close>

theorem report_left_behind_on_failure:
  "files (process_sample ex_env ex_args ex_state (''S3'', [''/in/S3.fastq''])) ''/tmp/S3.kraken2.report'' = Some ''bad''
   \<and> failed_log (process_sample ex_env ex_args ex_state (''S3'', [''/in/S3.fastq'']))
       = [(''S3'', PandasError ''Error tokenizing data'')]
   \<and> files (process_sample ex_env ex_args ex_state (''S1'', [''/in/S1.fastq''])) ''/tmp/S1.kraken2.report'' = None"
  by (intro conjI; code_simp)

subsection \<open>C5: one failing sample among many\<close>

text \<open>
  Claim C5 holds in its counts and fails in what the rows are built from. With \<^verbatim>\<open>S9\<close>
  failing between \<^verbatim>\<open>S1\<close> and \<^verbatim>\<open>S2\<close>, two samples succeed and two rows are written, but
  the table has no column for Lactobacillus: the rows are not built from the union of the
  taxa of the remaining samples.
\<close>

theorem rows_not_from_taxa_union_counterexample:
  "success (main_loop ex_env ex_args ex_state [(''S1'', [''/in/S1.fastq'']), (''S9'', [''/in/S9.fastq'']), (''S2'', [''/in/S2.fastq''])]) = 2
   \<and> map fst (failed_log (main_loop ex_env ex_args ex_state [(''S1'', [''/in/S1.fastq'']), (''S9'', [''/in/S9.fastq'']), (''S2'', [''/in/S2.fastq''])])) = [''S9'']
   \<and> csv_out (main_loop ex_env ex_args ex_state [(''S1'', [''/in/S1.fastq'']), (''S9'', [''/in/S9.fastq'']), (''S2'', [''/in/S2.fastq''])]) = [[Txt ''Ecoli'', Txt ''Bsubtilis'', Txt ''SampleID''], [Num 10, Num 0, Txt ''S1''], [Num 5, Num 3, Txt ''S2'']]
   \<and> Txt ''Lactobacillus'' \<notin> set (hd (csv_out (main_loop ex_env ex_args ex_state [(''S1'', [''/in/S1.fastq'']), (''S9'', [''/in/S9.fastq'']), (''S2'', [''/in/S2.fastq''])])))"
  by (intro conjI; code_simp)

text \<open>
  Claim C5, amended: on a fresh run over n samples the loop handles every sample and no
  error of a sample stops it. Each sample adds one to \<open>success\<close>, or one logged failure,
  or both, and without refinement exactly one of the two; so with exactly one logged
  failure at least n - 1 samples succeeded, and without refinement n - 1. The table
  holds one line per succeeded sample, after one header line when any succeeded. Nothing
  is said about a union of taxa.
\<close>

theorem main_loop_isolates_failures:
  assumes "success st = 0" and "failed_log st = []" and "csv_out st = []" and "first st"
  shows "(let st' = main_loop e a st samples; n = length samples in
            success st' \<le> n \<and> length (failed_log st') \<le> n \<and>
            n \<le> success st' + length (failed_log st') \<and>
            (\<not> use_bracken a \<longrightarrow> success st' + length (failed_log st') = n) \<and>
            (length (failed_log st') = 1 \<longrightarrow> n - 1 \<le> success st') \<and>
            length (csv_out st') = (if success st' = 0 then 0 else success st' + 1))"
  using main_loop_counts[of samples a e st] assms
  by (auto simp: Let_def split: if_splits)

theorem main_loop_isolates_failures_witness:
  "success ex_state = 0 \<and> failed_log ex_state = [] \<and> csv_out ex_state = [] \<and> first ex_state
   \<and> length (failed_log (main_loop ex_env ex_args ex_state [(''S1'', [''/in/S1.fastq'']), (''S9'', [''/in/S9.fastq'']), (''S2'', [''/in/S2.fastq''])])) = 1
   \<and> success (main_loop ex_env ex_args ex_state [(''S1'', [''/in/S1.fastq'']), (''S9'', [''/in/S9.fastq'']), (''S2'', [''/in/S2.fastq''])]) = 2
   \<and> length (csv_out (main_loop ex_env ex_args ex_state [(''S1'', [''/in/S1.fastq'']), (''S9'', [''/in/S9.fastq'']), (''S2'', [''/in/S2.fastq''])])) = 3"
proof -
  let ?c = "[(''S1'', [''/in/S1.fastq'']), (''S9'', [''/in/S9.fastq'']), (''S2'', [''/in/S2.fastq''])]"
  have h: "success ex_state = 0" "failed_log ex_state = []" "csv_out ex_state = []" "first ex_state"
    by (simp_all add: ex_state_def)
  have nb: "\<not> use_bracken ex_args" by (simp add: ex_args_def)
  have fl: "length (failed_log (main_loop ex_env ex_args ex_state ?c)) = 1" by code_simp
  note t = main_loop_isolates_failures[where e = ex_env and a = ex_args and samples = ?c,
      OF h(1) h(2) h(3) h(4)]
  have "success (main_loop ex_env ex_args ex_state ?c) = 2
      \<and> length (csv_out (main_loop ex_env ex_args ex_state ?c)) = 3"
    using t nb fl by (simp add: Let_def)
  then show ?thesis using h fl by simp
qed

subsection \<open>C6: which count a raw report yields\<close>

text \<open>
  Claim C6 says the normalizer keeps the reads assigned at the rank, the third column.
  The script selects the column it names \<^verbatim>\<open>reads_rooted\<close>, the second: for the E. coli
  row with 10 reads at or below the species and 7 at it, the record holds 10.
\<close>

theorem raw_count_is_second_column_counterexample:
  "parse_species_abundance ex_env (kraken2_report ''S1'') False (ex_with_report ''S1'' ''one'')
     = Inr [(Txt ''Ecoli'', Num 10), (Txt ''Bsubtilis'', Num 0)]
   \<and> parse_species_abundance ex_env (kraken2_report ''S1'') False (ex_with_report ''S1'' ''one'')
     \<noteq> Inr [(Txt ''Ecoli'', Num 7), (Txt ''Bsubtilis'', Num 0)]"
  by (intro conjI; code_simp)

text \<open>
  Claim C6, amended: of a raw report the parser keeps the rows whose rank code is
  \<^verbatim>\<open>S\<close> and projects each to the name (sixth column, stripped) and the count of reads at
  or below the rank (second column). It fails only when the name column holds no text.
\<close>

theorem parse_raw_projects_reads_rooted:
  assumes "files st p = Some content"
    and "pd_read_csv e content (Some kraken2_names) = Inr df"
  shows "parse_species_abundance e p False st =
     (if rows df \<noteq> [] \<and> (\<forall>r \<in> set (rows df). \<not> is_text (cell_at r 5))
      then Inl (AttributeError ''Can only use .str accessor with string values'')
      else Inr (map (\<lambda>r. (strip_cell (cell_at r 5), cell_at r 1))
                  (filter (\<lambda>r. cell_at r 3 = Txt ''S'') (rows df))))"
  using assms
  by (simp add: parse_species_abundance_def str_strip_def column_kraken2 comp_def Let_def)

theorem parse_raw_projects_reads_rooted_witness:
  "files (ex_with_report ''S2'' ''two'') (kraken2_report ''S2'') = Some ''two''
   \<and> pd_read_csv ex_env ''two'' (Some kraken2_names) = Inr ex_report_two
   \<and> parse_species_abundance ex_env (kraken2_report ''S2'') False (ex_with_report ''S2'' ''two'')
       = Inr [(Txt ''Ecoli'', Num 5), (Txt ''Lactobacillus'', Num 3)]"
proof -
  have h1: "files (ex_with_report ''S2'' ''two'') (kraken2_report ''S2'') = Some ''two''"
    by code_simp
  have h2: "pd_read_csv ex_env ''two'' (Some kraken2_names) = Inr ex_report_two"
    by (simp add: ex_env_def ex_read_def)
  have "parse_species_abundance ex_env (kraken2_report ''S2'') False (ex_with_report ''S2'' ''two'')
      = (if rows ex_report_two \<noteq> [] \<and> (\<forall>r \<in> set (rows ex_report_two). \<not> is_text (cell_at r 5))
         then Inl (AttributeError ''Can only use .str accessor with string values'')
         else Inr (map (\<lambda>r. (strip_cell (cell_at r 5), cell_at r 1))
                     (filter (\<lambda>r. cell_at r 3 = Txt ''S'') (rows ex_report_two))))"
    by (rule parse_raw_projects_reads_rooted[OF h1 h2])
  also have "\<dots> = Inr [(Txt ''Ecoli'', Num 5), (Txt ''Lactobacillus'', Num 3)]"
    by code_simp
  finally show ?thesis using h1 h2 by blast
qed

subsection \<open>C7: what the parser does to names and counts\<close>

text \<open>
  Claim C7 says rows with an empty name are dropped and a count that is no number makes
  the normalizer fail. The script does neither: a row whose name is blank and whose count
  is the text \<^verbatim>\<open>abc\<close> comes out as a record with the empty name and that text.
\<close>

theorem blank_name_and_text_count_emitted_counterexample:
  "parse_species_abundance ex_env (kraken2_report ''S4'') False (ex_with_report ''S4'' ''odd'')
     = Inr [(Txt [], Txt ''abc'')]"
  by code_simp

text \<open>
  Claim C7, amended: on both paths (\<open>b\<close> is \<^verbatim>\<open>use_bracken\<close>), once pandas has read the
  report, the parse fails only for a refined report without the column \<^verbatim>\<open>name\<close> or
  \<^verbatim>\<open>new_est_reads\<close>, or when there are rows and no name cell holds text. In every other
  case it succeeds, whatever the count cells hold, with one record for every row kept
  (all rows of a refined report, the species rows of a raw one), none dropped: the name
  of the record is the name cell trimmed of surrounding white space (the missing value
  when the cell holds no text; the empty name when the cell is blank), and the count is
  the count cell as pandas read it, unchanged and unchecked.
\<close>

theorem parse_trims_names_keeps_rows:
  assumes "files st p = Some content"
    and "pd_read_csv e content (if b then None else Some kraken2_names) = Inr df0"
  shows "(let df = (if b then df0 else df0\<lparr>columns := kraken2_names\<rparr>);
              reads = (if b then ''new_est_reads'' else ''reads_rooted'');
              kept = (if b then rows df0 else filter (\<lambda>r. column df ''rank'' r = Txt ''S'') (rows df0))
          in parse_species_abundance e p b st =
               (if b \<and> col_index ''name'' (columns df0) = None then Inl (KeyError ''name'')
                else if b \<and> col_index ''new_est_reads'' (columns df0) = None
                then Inl (KeyError ''new_est_reads'')
                else if rows df0 \<noteq> [] \<and> \<not> (\<exists>r \<in> set (rows df0). is_text (column df ''name'' r))
                then Inl (AttributeError ''Can only use .str accessor with string values'')
                else Inr (map (\<lambda>r. (strip_cell (column df ''name'' r), column df reads r)) kept)))
         \<and> (\<forall>n. strip_cell n = NaN \<or>
               (\<exists>s. strip_cell n = Txt s \<and> (s = [] \<or> (\<not> is_space (hd s) \<and> \<not> is_space (last s)))))"
proof -
  have 1: "(let df = (if b then df0 else df0\<lparr>columns := kraken2_names\<rparr>);
              reads = (if b then ''new_est_reads'' else ''reads_rooted'');
              kept = (if b then rows df0 else filter (\<lambda>r. column df ''rank'' r = Txt ''S'') (rows df0))
          in parse_species_abundance e p b st =
               (if b \<and> col_index ''name'' (columns df0) = None then Inl (KeyError ''name'')
                else if b \<and> col_index ''new_est_reads'' (columns df0) = None
                then Inl (KeyError ''new_est_reads'')
                else if rows df0 \<noteq> [] \<and> \<not> (\<exists>r \<in> set (rows df0). is_text (column df ''name'' r))
                then Inl (AttributeError ''Can only use .str accessor with string values'')
                else Inr (map (\<lambda>r. (strip_cell (column df ''name'' r), column df reads r)) kept)))"
  proof (cases b)
    case True
    then show ?thesis using assms
      by (simp add: parse_species_abundance_def str_strip_def comp_def Let_def)
  next
    case False
    then show ?thesis using assms
      by (simp add: parse_species_abundance_def str_strip_def comp_def Let_def)
  qed
  show ?thesis using 1 strip_cell_trimmed by blast
qed

theorem parse_trims_names_keeps_rows_witness:
  "files (ex_state\<lparr>files := [''/tmp/S5.bracken'' \<mapsto> ''est'']\<rparr>) ''/tmp/S5.bracken'' = Some ''est''
   \<and> pd_read_csv ex_env ''est'' (if True then None else Some kraken2_names) = Inr ex_report_est
   \<and> parse_species_abundance ex_env ''/tmp/S5.bracken'' True
        (ex_state\<lparr>files := [''/tmp/S5.bracken'' \<mapsto> ''est'']\<rparr>)
       = Inr [(Txt ''Ecoli'', Num 12), (Txt [], Txt ''abc'')]"
proof -
  have h1: "files (ex_state\<lparr>files := [''/tmp/S5.bracken'' \<mapsto> ''est'']\<rparr>) ''/tmp/S5.bracken''
      = Some ''est''"
    by simp
  have h2: "pd_read_csv ex_env ''est'' (if True then None else Some kraken2_names) = Inr ex_report_est"
    by (simp add: ex_env_def ex_read_def)
  note t = conjunct1[OF parse_trims_names_keeps_rows[OF h1 h2], unfolded Let_def]
  have "parse_species_abundance ex_env ''/tmp/S5.bracken'' True
        (ex_state\<lparr>files := [''/tmp/S5.bracken'' \<mapsto> ''est'']\<rparr>)
       = Inr [(Txt ''Ecoli'', Num 12), (Txt [], Txt ''abc'')]"
    by (rule trans[OF t]) code_simp
  then show ?thesis using h1 h2 by blast
qed

subsection \<open>C8: a missing or empty classifier report\<close>

text \<open>
  Claim C8 says that a missing or empty report of the classifier always fails the sample
  with the empty-report error. \<open>run_cmd\<close> looks at the return code first: when the
  classifier ends with a code other than 0 it raises \<^verbatim>\<open>CalledProcessError\<close>, and the
  report is never looked at. For \<^verbatim>\<open>S8\<close> (return code 1, no report written) the error
  logged is that one, not the empty-report error.
\<close>

theorem nonzero_exit_reported_first_counterexample:
  "failed_log (process_sample ex_env ex_args ex_state (''S8'', [''/in/S8.fastq'']))
     = [(''S8'', CalledProcessError 1 (join '' '' (kraken2_cmd ''S8'' [''/in/S8.fastq''] ''/db'' 4)))]
   \<and> files (process_sample ex_env ex_args ex_state (''S8'', [''/in/S8.fastq''])) (kraken2_report ''S8'') = None
   \<and> failed_log (process_sample ex_env ex_args ex_state (''S8'', [''/in/S8.fastq'']))
     \<noteq> [(''S8'', RuntimeError ''Kraken2 produced empty report for S8'')]"
  by (intro conjI; code_simp)

text \<open>
  Claim C8, amended: when the report of the classifier is missing or has length zero
  after the classifier ran, the sample fails and only this sample. The error is
  \<^verbatim>\<open>RuntimeError("Kraken2 produced empty report for <sample>")\<close>, the error the
  specification calls EmptyReportError, when the classifier returned code 0, and
  \<^verbatim>\<open>CalledProcessError\<close>, raised before the report is looked at, when it did not. In both
  cases the turn of the loop is exactly: the launch, then the logged failure. No row is
  written, \<open>success\<close> is not raised, and the loop goes on with the remaining samples.
\<close>

theorem empty_report_fails_sample:
  assumes run: "subprocess_run e
        \<lparr>popen_args = CmdString (join '' '' (kraken2_cmd sid fqs (kraken_db a) (threads a))),
         popen_shell = True\<rparr> (files st) = ((rc, out, err), fs')"
    and empty: "fs' (kraken2_report sid) = None \<or> fs' (kraken2_report sid) = Some []"
  shows "(let cmd = join '' '' (kraken2_cmd sid fqs (kraken_db a) (threads a));
              st1 = st\<lparr>files := fs',
                       launched := launched st @ [\<lparr>popen_args = CmdString cmd, popen_shell = True\<rparr>]\<rparr>;
              st' = log_failure sid
                      (if rc = 0 then RuntimeError (''Kraken2 produced empty report for '' @ sid)
                       else CalledProcessError rc cmd) st1
          in process_sample e a st (sid, fqs) = st' \<and>
             success st' = success st \<and> csv_out st' = csv_out st \<and> first st' = first st \<and>
             main_loop e a st ((sid, fqs) # rest) = main_loop e a st' rest)"
proof -
  let ?cmd = "join '' '' (kraken2_cmd sid fqs (kraken_db a) (threads a))"
  let ?st1 = "st\<lparr>files := fs',
                 launched := launched st @ [\<lparr>popen_args = CmdString ?cmd, popen_shell = True\<rparr>]\<rparr>"
  let ?err = "if rc = 0 then RuntimeError (''Kraken2 produced empty report for '' @ sid)
              else CalledProcessError rc ?cmd"
  have k: "run_kraken2 e sid fqs (kraken_db a) (threads a) st = (Inl ?err, ?st1)"
    using run empty
    by (auto simp: run_kraken2_def run_cmd_def Let_def)
  have p: "process_sample e a st (sid, fqs) = log_failure sid ?err ?st1"
    using k by (simp add: process_sample_def Let_def)
  have m: "main_loop e a st ((sid, fqs) # rest) = main_loop e a (log_failure sid ?err ?st1) rest"
    using p by (simp add: main_loop_def)
  show ?thesis
    using p m by (simp add: Let_def log_failure_def)
qed

theorem empty_report_fails_sample_witness:
  "failed_log (process_sample ex_env ex_args ex_state (''S9'', [''/in/S9.fastq'']))
     = [(''S9'', RuntimeError ''Kraken2 produced empty report for S9'')]
   \<and> success (process_sample ex_env ex_args ex_state (''S9'', [''/in/S9.fastq''])) = 0
   \<and> csv_out (process_sample ex_env ex_args ex_state (''S9'', [''/in/S9.fastq''])) = []"
proof -
  let ?call = "\<lparr>popen_args = CmdString (join '' ''
      (kraken2_cmd ''S9'' [''/in/S9.fastq''] (kraken_db ex_args) (threads ex_args))),
      popen_shell = True\<rparr>"
  define X where "X = subprocess_run ex_env ?call (files ex_state)"
  have run: "subprocess_run ex_env ?call (files ex_state)
      = ((fst (fst X), fst (snd (fst X)), snd (snd (fst X))), snd X)"
    by (simp add: X_def)
  have empty: "snd X (kraken2_report ''S9'') = None \<or> snd X (kraken2_report ''S9'') = Some []"
    unfolding X_def by code_simp
  have rc: "fst (fst X) = 0"
    unfolding X_def by code_simp
  note t = empty_report_fails_sample[OF run empty, where rest = "[]"]
  have p: "process_sample ex_env ex_args ex_state (''S9'', [''/in/S9.fastq''])
      = log_failure ''S9'' (RuntimeError (''Kraken2 produced empty report for '' @ ''S9''))
          (ex_state\<lparr>files := snd X, launched := launched ex_state @ [?call]\<rparr>)"
    using t rc by (simp add: Let_def)
  show ?thesis
    unfolding p by (simp add: log_failure_def ex_state_def)
qed

subsection \<open>C9: pairing read-1 and read-2 files\<close>

text \<open>
  Claim C9: a directory with \<^verbatim>\<open>A_R1.fastq\<close> and \<^verbatim>\<open>A_R2.fastq\<close> yields the one paired
  sample \<^verbatim>\<open>A\<close>. The script derives the partner by replacing the marker in the whole
  path, not in the file name, while it looks for the marker and derives the identifier
  in the file name only. In a directory whose own name holds the marker, here
  \<^verbatim>\<open>/seq_R1\<close>, the partner is looked for in \<^verbatim>\<open>/seq_R2\<close>, and the two files become two
  single-end samples \<^verbatim>\<open>A\<close> and \<^verbatim>\<open>A_R2\<close>; in \<^verbatim>\<open>/seq\<close> the same files pair up.
\<close>

theorem pairing_broken_by_marker_in_directory:
  "discover_samples ''/seq_R1'' [''/seq_R1/A_R1.fastq'', ''/seq_R1/A_R2.fastq'']
     (\<lambda>p. p \<in> set [''/seq_R1/A_R1.fastq'', ''/seq_R1/A_R2.fastq''])
   = Inr [(''A'', [''/seq_R1/A_R1.fastq'']), (''A_R2'', [''/seq_R1/A_R2.fastq''])]
   \<and> discover_samples ''/seq'' [''/seq/A_R1.fastq'', ''/seq/A_R2.fastq'']
     (\<lambda>p. p \<in> set [''/seq/A_R1.fastq'', ''/seq/A_R2.fastq''])
   = Inr [(''A'', [''/seq/A_R1.fastq'', ''/seq/A_R2.fastq''])]"
  by (intro conjI; code_simp)

subsection \<open>C10: discovery as a partition of the files\<close>

text \<open>
  Claim C10 says that with distinct identifiers every enumerated file is in exactly one
  sample. Two read-1 files can derive the same partner: \<^verbatim>\<open>x_R1_R2.fastq\<close> and
  \<^verbatim>\<open>x_R2_R1.fastq\<close> both derive \<^verbatim>\<open>x_R2_R2.fastq\<close>. The identifiers \<^verbatim>\<open>x\<close> and
  \<^verbatim>\<open>x_R2\<close> are distinct, and the partner is in both samples.
\<close>

theorem shared_partner_listed_twice_counterexample:
  "discover_samples ''/d'' [''/d/x_R1_R2.fastq'', ''/d/x_R2_R1.fastq'', ''/d/x_R2_R2.fastq'']
     (\<lambda>p. p \<in> set [''/d/x_R1_R2.fastq'', ''/d/x_R2_R1.fastq'', ''/d/x_R2_R2.fastq''])
   = Inr [(''x'', [''/d/x_R1_R2.fastq'', ''/d/x_R2_R2.fastq'']),
          (''x_R2'', [''/d/x_R2_R1.fastq'', ''/d/x_R2_R2.fastq''])]"
  by code_simp

text \<open>
  Claim C10, amended: when the enumerated files are distinct and the identifiers derived
  (from the read-1 files and from the files left unpaired) are distinct, every enumerated
  file is in the path list of a sample, and a partner taken by pairing is not the path
  list of a sample of its own. When moreover no two read-1 files derive the same
  existing partner, no file occurs twice in the path lists: every enumerated file is in
  exactly one.
\<close>

theorem discover_samples_partition:
  assumes ne: "fastq_files \<noteq> []" and df: "distinct fastq_files"
    and ids: "distinct (map r1_sample_id (r1_files fastq_files)
                       @ map unpaired_sample_id (unpaired_files fastq_files ex))"
  shows "\<exists>samples. discover_samples d fastq_files ex = Inr samples \<and>
           set fastq_files \<subseteq> set (concat (map snd samples)) \<and>
           (\<forall>r1 \<in> set (r1_files fastq_files). ex (r2_of r1) \<longrightarrow> (\<forall>k. (k, [r2_of r1]) \<notin> set samples)) \<and>
           (inj_on r2_of {r \<in> set (r1_files fastq_files). ex (r2_of r)} \<longrightarrow>
              distinct (concat (map snd samples)))"
proof -
  let ?rs = "r1_files fastq_files"
  let ?us = "unpaired_files fastq_files ex"
  let ?p = "map (r1_entry ex) ?rs"
  let ?s = "?p @ map (\<lambda>f. (unpaired_sample_id f, [f])) ?us"
  have p: "paired_samples fastq_files ex = ?p"
    using ids foldl_register_r1_fresh[of "[]" ?rs ex] by (simp add: paired_samples_def)
  have fp: "map fst ?p = map r1_sample_id ?rs" by (simp add: fst_r1_entry)
  have d2: "distinct (map fst ?p @ map unpaired_sample_id ?us)"
    using ids unfolding fp .
  have s: "foldl register_unpaired (paired_samples fastq_files ex) ?us = ?s"
    unfolding p by (rule foldl_register_unpaired_fresh[OF d2])
  have r: "discover_samples d fastq_files ex = Inr ?s"
    using ne s by (simp add: discover_samples_def)
  have us: "?us = filter (\<lambda>f. f \<notin> set (concat (map snd ?p))) fastq_files"
    by (simp add: unpaired_files_def p)
  have cc: "concat (map snd ?s) = concat (map snd ?p) @ ?us"
    by (simp add: comp_def)
  have a: "set fastq_files \<subseteq> set (concat (map snd ?s))"
    unfolding cc using us by auto
  have mk: "\<forall>r \<in> set ?rs. contains ''_R1'' (basename r)" by (simp add: r1_files_def)
  have b: "\<forall>r1 \<in> set ?rs. ex (r2_of r1) \<longrightarrow> (\<forall>k. (k, [r2_of r1]) \<notin> set ?s)"
  proof (intro ballI impI allI notI)
    fix r1 k assume r1: "r1 \<in> set ?rs" and e: "ex (r2_of r1)" and m: "(k, [r2_of r1]) \<in> set ?s"
    have u: "r2_of r1 \<in> set (concat (map snd ?p))"
      using r1 e by (auto simp: set_concat_r1_entries[simplified])
    from m consider "(k, [r2_of r1]) \<in> set ?p" | "r2_of r1 \<in> set ?us" by auto
    then show False
    proof cases
      case 1
      then obtain x where "x \<in> set ?rs" "x = r2_of r1" by (auto simp: r1_entry_def split: if_splits)
      then show False using mk r2_of_no_marker by metis
    next
      case 2
      then show False using u us by simp
    qed
  qed
  have c: "distinct (concat (map snd ?s))" if inj: "inj_on r2_of {r \<in> set ?rs. ex (r2_of r)}"
  proof -
    have "distinct ?rs" using df by (simp add: r1_files_def)
    then have "distinct (concat (map snd ?p))"
      using distinct_concat_r1_entries mk inj by blast
    moreover have "distinct ?us" using df us by simp
    ultimately show ?thesis unfolding cc using us by auto
  qed
  show ?thesis using r a b c by blast
qed

theorem discover_samples_partition_witness:
  "distinct [''/seq/A_R1.fastq'', ''/seq/A_R2.fastq'', ''/seq/B.fastq'']
   \<and> (\<exists>samples. discover_samples ''/seq'' [''/seq/A_R1.fastq'', ''/seq/A_R2.fastq'', ''/seq/B.fastq''] (\<lambda>p. p \<in> set [''/seq/A_R1.fastq'', ''/seq/A_R2.fastq'', ''/seq/B.fastq'']) = Inr samples
        \<and> set [''/seq/A_R1.fastq'', ''/seq/A_R2.fastq'', ''/seq/B.fastq''] \<subseteq> set (concat (map snd samples))
        \<and> distinct (concat (map snd samples)))"
proof -
  let ?fs = "[''/seq/A_R1.fastq'', ''/seq/A_R2.fastq'', ''/seq/B.fastq'']"
  let ?ex = "(\<lambda>p. p \<in> set [''/seq/A_R1.fastq'', ''/seq/A_R2.fastq'', ''/seq/B.fastq''])"
  have ne: "?fs \<noteq> []" by simp
  have df: "distinct ?fs" by code_simp
  have ids: "distinct (map r1_sample_id (r1_files ?fs) @ map unpaired_sample_id (unpaired_files ?fs ?ex))"
    by code_simp
  have r: "r1_files ?fs = [''/seq/A_R1.fastq'']" by code_simp
  have inj: "inj_on r2_of {r \<in> set (r1_files ?fs). ?ex (r2_of r)}"
    unfolding r by (rule inj_onI) simp
  from discover_samples_partition[OF ne df ids, of "''/seq''"] inj
  show ?thesis using df by blast
qed


end
